theory Spec2Isabelle
  imports Complex_Main "HOL-Library.Word"
begin

section \<open>The common A/C state (\<open>stdAc::state_t\<close>) and its enumerations\<close>

text \<open>
  \<open>decode_type_t\<close> is declared outside \<open>IRac.cpp\<close>. The constructors below are the
  protocol tags that \<open>IRac.cpp\<close> names, \<open>UNKNOWN\<close> (the default tag of a fresh state)
  and \<open>OTHER n\<close> for every remaining tag of the enumeration. The large enumerations
  of this theory are declared without the derived generators, which only cost time.
\<close>

datatype (plugins del: code "quickcheck" size lifting transfer) decode_type_t =
    UNKNOWN
  | AIRTON | AIRWELL | AMCOR | ARGO | BOSCH144 | CARRIER_AC64 | COOLIX | CORONA_AC
  | DAIKIN | DAIKIN128 | DAIKIN152 | DAIKIN160 | DAIKIN176 | DAIKIN2 | DAIKIN216
  | DAIKIN64 | DELONGHI_AC | ECOCLIM | ELECTRA_AC | FUJITSU_AC | GOODWEATHER | GREE
  | HAIER_AC | HAIER_AC160 | HAIER_AC176 | HAIER_AC_YRW02 | HITACHI_AC | HITACHI_AC1
  | HITACHI_AC264 | HITACHI_AC296 | HITACHI_AC344 | HITACHI_AC424 | KELON | KELVINATOR
  | LG | LG2 | MIDEA | MIRAGE | MITSUBISHI_AC | MITSUBISHI112 | MITSUBISHI136
  | MITSUBISHI_HEAVY_88 | MITSUBISHI_HEAVY_152 | NEOCLIMA | PANASONIC_AC
  | PANASONIC_AC32 | RHOSS | SAMSUNG_AC | SANYO_AC | SANYO_AC88 | SHARP_AC | TCL112AC
  | TECHNIBEL_AC | TECO | TEKNOPOINT | TOSHIBA_AC | TRANSCOLD | TROTEC | TROTEC_3550
  | TRUMA | VESTEL_AC | VOLTAS | YORK | WHIRLPOOL_AC
  | OTHER nat

text \<open>
  The four enumerations of \<open>stdAc\<close> reuse the names \<open>kOff\<close>, \<open>kAuto\<close>, ... as the
  C++ scoped enums do; they are written qualified throughout, \<open>opmode_t.kOff\<close> for
  \<open>stdAc::opmode_t::kOff\<close>.
\<close>

datatype opmode_t = kOff | kAuto | kCool | kHeat | kDry | kFan

datatype fanspeed_t = kAuto | kMin | kLow | kMedium | kMediumHigh | kHigh | kMax

datatype swingv_t =
  kOff | kAuto | kHighest | kHigh | kUpperMiddle | kMiddle | kLow | kLowest

datatype swingh_t =
  kOff | kAuto | kLeftMax | kLeft | kMiddle | kRight | kRightMax | kWide

datatype ac_command_t =
  kControlCommand | kSensorTempReport | kTimerCommand | kConfigCommand

text \<open>
  A C \<open>float\<close> is modelled by the number it denotes, or \<open>NaN\<close>. Rounding is not
  modelled. What matters to the code below is how a \<open>float\<close> compares and how it
  converts to \<open>bool\<close>: \<open>x != y\<close> is true as soon as one side is NaN, and every value
  but zero (NaN included) is true in a condition.
\<close>

datatype cfloat = Num real | NaN

fun float_ne :: "cfloat \<Rightarrow> cfloat \<Rightarrow> bool" where
  "float_ne (Num x) (Num y) = (x \<noteq> y)"
| "float_ne _ _ = True"

fun float_truthy :: "cfloat \<Rightarrow> bool" where
  "float_truthy (Num x) = (x \<noteq> 0)"
| "float_truthy NaN = True"

type_synonym int16_t = "16 word"

text \<open>
  Modelled from the spec: \<open>stdAc::state_t\<close> is declared outside \<open>IRac.cpp\<close>; the
  fields and their defaults are those of the data model's table of the Common State.
  The fields \<open>power\<close> and \<open>filter\<close> are named \<open>power_fld\<close> and \<open>filter_fld\<close>.
\<close>

record state_t =
  protocol :: decode_type_t
  model :: int16_t
  power_fld :: bool
  mode :: opmode_t
  degrees :: cfloat
  celsius :: bool
  fanspeed :: fanspeed_t
  swingv :: swingv_t
  swingh :: swingh_t
  quiet :: bool
  turbo :: bool
  econo :: bool
  light :: bool
  filter_fld :: bool
  clean :: bool
  beep :: bool
  sleep :: int16_t
  clock :: int16_t
  command :: ac_command_t
  sensorTemperature :: cfloat
  iFeel :: bool

definition default_state :: state_t where
  "default_state =
     \<lparr>protocol = UNKNOWN, model = 1, power_fld = False, mode = opmode_t.kAuto,
      degrees = Num 25, celsius = True, fanspeed = fanspeed_t.kAuto,
      swingv = swingv_t.kOff, swingh = swingh_t.kOff,
      quiet = False, turbo = False, econo = False, light = False, filter_fld = False,
      clean = False, beep = False, sleep = - 1, clock = - 1,
      command = kControlCommand, sensorTemperature = Num 25, iFeel = False\<rparr>"

section \<open>The build configuration\<close>

text \<open>
  The per-protocol switches \<open>SEND_...\<close> and \<open>DECODE_...\<close> that guard the code of
  \<open>IRac.cpp\<close> are preprocessor macros defined outside it. A build is the truth
  value it gives to each of them.
\<close>

datatype (plugins del: code "quickcheck" size lifting transfer) macro =
    SEND_AIRTON | SEND_AIRWELL | SEND_AMCOR | SEND_ARGO | SEND_BOSCH144
  | SEND_CARRIER_AC64 | SEND_COOLIX | SEND_CORONA_AC | SEND_DAIKIN | SEND_DAIKIN128
  | SEND_DAIKIN152 | SEND_DAIKIN160 | SEND_DAIKIN176 | SEND_DAIKIN2 | SEND_DAIKIN216
  | SEND_DAIKIN64 | SEND_DELONGHI_AC | SEND_ECOCLIM | SEND_ELECTRA_AC | SEND_FUJITSU_AC
  | SEND_GOODWEATHER | SEND_GREE | SEND_HAIER_AC | SEND_HAIER_AC160 | SEND_HAIER_AC176
  | SEND_HAIER_AC_YRW02 | SEND_HITACHI_AC | SEND_HITACHI_AC1 | SEND_HITACHI_AC264
  | SEND_HITACHI_AC296 | SEND_HITACHI_AC344 | SEND_HITACHI_AC424 | SEND_KELON
  | SEND_KELVINATOR | SEND_LG | SEND_MIDEA | SEND_MIRAGE | SEND_MITSUBISHI_AC
  | SEND_MITSUBISHI112 | SEND_MITSUBISHI136 | SEND_MITSUBISHIHEAVY | SEND_NEOCLIMA
  | SEND_PANASONIC_AC | SEND_PANASONIC_AC32 | SEND_RHOSS | SEND_SAMSUNG_AC
  | SEND_SANYO_AC | SEND_SANYO_AC88 | SEND_SHARP_AC | SEND_TCL112AC
  | SEND_TECHNIBEL_AC | SEND_TECO | SEND_TEKNOPOINT | SEND_TOSHIBA_AC | SEND_TRANSCOLD
  | SEND_TROTEC | SEND_TROTEC_3550 | SEND_TRUMA | SEND_VESTEL_AC | SEND_VOLTAS
  | SEND_YORK | SEND_WHIRLPOOL_AC
  | DECODE_LG | DECODE_RHOSS

type_synonym build = "macro \<Rightarrow> bool"

text \<open>The build that enables every switch.\<close>

definition all_enabled :: build where
  "all_enabled = (\<lambda>m. True)"

text \<open>The build that enables the LG and Rhoss switches and nothing else.\<close>

definition lg_rhoss_only :: build where
  "lg_rhoss_only =
     (\<lambda>m. m = SEND_LG \<or> m = SEND_RHOSS \<or> m = DECODE_LG \<or> m = DECODE_RHOSS)"

text \<open>
  The model codes that \<open>handleToggles\<close> compares with
  (\<open>mirage_ac_remote_model_t::KKG29AC1\<close>, \<open>panasonic_ac_remote_model_t::kPanasonicCkp\<close>)
  are enumerators of the vendor headers; their values are parameters here.
\<close>

record model_ids =
  KKG29AC1 :: int16_t
  kPanasonicCkp :: int16_t

section \<open>\<open>IRac::isProtocolSupported\<close>\<close>

text \<open>
  A \<open>case\<close> label of the switch is compiled in exactly when its macro is true; a tag
  whose label is compiled out reaches \<open>default: return false\<close>.
\<close>

definition isProtocolSupported :: "build \<Rightarrow> decode_type_t \<Rightarrow> bool" where
  "isProtocolSupported B protocol' =
     (case protocol' of
        AIRTON \<Rightarrow> B SEND_AIRTON
      | AIRWELL \<Rightarrow> B SEND_AIRWELL
      | AMCOR \<Rightarrow> B SEND_AMCOR
      | ARGO \<Rightarrow> B SEND_ARGO
      | BOSCH144 \<Rightarrow> B SEND_BOSCH144
      | CARRIER_AC64 \<Rightarrow> B SEND_CARRIER_AC64
      | COOLIX \<Rightarrow> B SEND_COOLIX
      | CORONA_AC \<Rightarrow> B SEND_CORONA_AC
      | DAIKIN \<Rightarrow> B SEND_DAIKIN
      | DAIKIN128 \<Rightarrow> B SEND_DAIKIN128
      | DAIKIN152 \<Rightarrow> B SEND_DAIKIN152
      | DAIKIN160 \<Rightarrow> B SEND_DAIKIN160
      | DAIKIN176 \<Rightarrow> B SEND_DAIKIN176
      | DAIKIN2 \<Rightarrow> B SEND_DAIKIN2
      | DAIKIN216 \<Rightarrow> B SEND_DAIKIN216
      | DAIKIN64 \<Rightarrow> B SEND_DAIKIN64
      | DELONGHI_AC \<Rightarrow> B SEND_DELONGHI_AC
      | ECOCLIM \<Rightarrow> B SEND_ECOCLIM
      | ELECTRA_AC \<Rightarrow> B SEND_ELECTRA_AC
      | FUJITSU_AC \<Rightarrow> B SEND_FUJITSU_AC
      | GOODWEATHER \<Rightarrow> B SEND_GOODWEATHER
      | GREE \<Rightarrow> B SEND_GREE
      | HAIER_AC \<Rightarrow> B SEND_HAIER_AC
      | HAIER_AC160 \<Rightarrow> B SEND_HAIER_AC160
      | HAIER_AC176 \<Rightarrow> B SEND_HAIER_AC176
      | HAIER_AC_YRW02 \<Rightarrow> B SEND_HAIER_AC_YRW02
      | HITACHI_AC \<Rightarrow> B SEND_HITACHI_AC
      | HITACHI_AC1 \<Rightarrow> B SEND_HITACHI_AC1
      | HITACHI_AC264 \<Rightarrow> B SEND_HITACHI_AC264
      | HITACHI_AC296 \<Rightarrow> B SEND_HITACHI_AC296
      | HITACHI_AC344 \<Rightarrow> B SEND_HITACHI_AC344
      | HITACHI_AC424 \<Rightarrow> B SEND_HITACHI_AC424
      | KELON \<Rightarrow> B SEND_KELON
      | KELVINATOR \<Rightarrow> B SEND_KELVINATOR
      | LG \<Rightarrow> B SEND_LG
      | LG2 \<Rightarrow> B SEND_LG
      | MIDEA \<Rightarrow> B SEND_MIDEA
      | MIRAGE \<Rightarrow> B SEND_MIRAGE
      | MITSUBISHI_AC \<Rightarrow> B SEND_MITSUBISHI_AC
      | MITSUBISHI112 \<Rightarrow> B SEND_MITSUBISHI112
      | MITSUBISHI136 \<Rightarrow> B SEND_MITSUBISHI136
      | MITSUBISHI_HEAVY_88 \<Rightarrow> B SEND_MITSUBISHIHEAVY
      | MITSUBISHI_HEAVY_152 \<Rightarrow> B SEND_MITSUBISHIHEAVY
      | NEOCLIMA \<Rightarrow> B SEND_NEOCLIMA
      | PANASONIC_AC \<Rightarrow> B SEND_PANASONIC_AC
      | PANASONIC_AC32 \<Rightarrow> B SEND_PANASONIC_AC32
      | RHOSS \<Rightarrow> B SEND_RHOSS
      | SAMSUNG_AC \<Rightarrow> B SEND_SAMSUNG_AC
      | SANYO_AC \<Rightarrow> B SEND_SANYO_AC
      | SANYO_AC88 \<Rightarrow> B SEND_SANYO_AC88
      | SHARP_AC \<Rightarrow> B SEND_SHARP_AC
      | TCL112AC \<Rightarrow> B SEND_TCL112AC
      | TECHNIBEL_AC \<Rightarrow> B SEND_TECHNIBEL_AC
      | TECO \<Rightarrow> B SEND_TECO
      | TEKNOPOINT \<Rightarrow> B SEND_TEKNOPOINT
      | TOSHIBA_AC \<Rightarrow> B SEND_TOSHIBA_AC
      | TRANSCOLD \<Rightarrow> B SEND_TRANSCOLD
      | TROTEC \<Rightarrow> B SEND_TROTEC
      | TROTEC_3550 \<Rightarrow> B SEND_TROTEC_3550
      | TRUMA \<Rightarrow> B SEND_TRUMA
      | VESTEL_AC \<Rightarrow> B SEND_VESTEL_AC
      | VOLTAS \<Rightarrow> B SEND_VOLTAS
      | YORK \<Rightarrow> B SEND_YORK
      | WHIRLPOOL_AC \<Rightarrow> B SEND_WHIRLPOOL_AC
      | _ \<Rightarrow> False)"

section \<open>\<open>IRac::initState\<close>, \<open>IRac::cleanState\<close>, \<open>IRac::handleToggles\<close>\<close>

text \<open>
  The eighteen-argument \<open>initState\<close> stores its arguments into \<open>*state\<close> and leaves
  \<open>command\<close>, \<open>sensorTemperature\<close> and \<open>iFeel\<close> as they were.
\<close>

definition initState ::
  "state_t \<Rightarrow> decode_type_t \<Rightarrow> int16_t \<Rightarrow> bool \<Rightarrow> opmode_t \<Rightarrow> cfloat \<Rightarrow> bool \<Rightarrow>
   fanspeed_t \<Rightarrow> swingv_t \<Rightarrow> swingh_t \<Rightarrow> bool \<Rightarrow> bool \<Rightarrow> bool \<Rightarrow> bool \<Rightarrow> bool \<Rightarrow>
   bool \<Rightarrow> bool \<Rightarrow> int16_t \<Rightarrow> int16_t \<Rightarrow> state_t" where
  "initState state vendor model' power' mode' degrees' celsius' fan swingv' swingh'
     quiet' turbo' econo' light' filter' clean' beep' sleep' clock' =
     state\<lparr>protocol := vendor, model := model', power_fld := power', mode := mode',
           degrees := degrees', celsius := celsius', fanspeed := fan,
           swingv := swingv', swingh := swingh', quiet := quiet', turbo := turbo',
           econo := econo', light := light', filter_fld := filter', clean := clean',
           beep := beep', sleep := sleep', clock := clock'\<rparr>"

definition cleanState :: "state_t \<Rightarrow> state_t" where
  "cleanState state =
     (let result = state
      in if mode state = opmode_t.kOff then result\<lparr>power_fld := False\<rparr> else result)"

text \<open>
  The \<open>if\<close>/\<open>else\<close> on the vertical swing that four arms of \<open>handleToggles\<close>
  spell out in the same words: \<open>kAuto\<close> when the off-ness changed, \<open>kOff\<close> when not.
\<close>

definition swingv_toggle :: "state_t \<Rightarrow> state_t \<Rightarrow> swingv_t" where
  "swingv_toggle desired prev =
     (if (swingv desired = swingv_t.kOff) \<noteq> (swingv prev = swingv_t.kOff)
      then swingv_t.kAuto else swingv_t.kOff)"

text \<open>
  \<open>prev\<close> is a pointer that may be null: \<open>None\<close>. On \<open>bool\<close>, \<open>a ^ b\<close> is \<open>a \<noteq> b\<close>.
  The two fall-throughs (MIDEA into the swing rule, KELON into the power rule) are
  written out in the arm they start from.
\<close>

definition handleToggles :: "model_ids \<Rightarrow> state_t \<Rightarrow> state_t option \<Rightarrow> state_t" where
  "handleToggles K desired prev =
     (let result = desired in
      case prev of
        None \<Rightarrow> result
      | Some p \<Rightarrow>
          if protocol desired = protocol p \<and> model desired = model p then
            (case protocol desired of
               COOLIX \<Rightarrow>
                 result\<lparr>swingv := swingv_toggle desired p,
                        turbo := (turbo desired \<noteq> turbo p),
                        light := (light desired \<noteq> light p),
                        clean := (clean desired \<noteq> clean p),
                        sleep := (if (0 \<le>s sleep desired) \<noteq> (0 \<le>s sleep p)
                                  then 0 else - 1)\<rparr>
             | TRANSCOLD \<Rightarrow>
                 result\<lparr>swingv := swingv_toggle desired p,
                        turbo := (turbo desired \<noteq> turbo p),
                        light := (light desired \<noteq> light p),
                        clean := (clean desired \<noteq> clean p),
                        sleep := (if (0 \<le>s sleep desired) \<noteq> (0 \<le>s sleep p)
                                  then 0 else - 1)\<rparr>
             | DAIKIN128 \<Rightarrow>
                 result\<lparr>power_fld := (power_fld desired \<noteq> power_fld p),
                        light := (light desired \<noteq> light p)\<rparr>
             | ELECTRA_AC \<Rightarrow>
                 result\<lparr>light := (light desired \<noteq> light p)\<rparr>
             | FUJITSU_AC \<Rightarrow>
                 result\<lparr>turbo := (turbo desired \<noteq> turbo p),
                        econo := (econo desired \<noteq> econo p)\<rparr>
             | MIDEA \<Rightarrow>
                 result\<lparr>turbo := (turbo desired \<noteq> turbo p),
                        econo := (econo desired \<noteq> econo p),
                        light := (light desired \<noteq> light p),
                        clean := (clean desired \<noteq> clean p),
                        swingv := swingv_toggle desired p\<rparr>
             | CORONA_AC \<Rightarrow> result\<lparr>swingv := swingv_toggle desired p\<rparr>
             | HITACHI_AC344 \<Rightarrow> result\<lparr>swingv := swingv_toggle desired p\<rparr>
             | HITACHI_AC424 \<Rightarrow> result\<lparr>swingv := swingv_toggle desired p\<rparr>
             | SHARP_AC \<Rightarrow>
                 result\<lparr>light := (light desired \<noteq> light p),
                        swingv := swingv_toggle desired p\<rparr>
             | KELON \<Rightarrow>
                 result\<lparr>swingv := swingv_toggle desired p,
                        power_fld := (power_fld desired \<noteq> power_fld p)\<rparr>
             | AIRWELL \<Rightarrow> result\<lparr>power_fld := (power_fld desired \<noteq> power_fld p)\<rparr>
             | DAIKIN64 \<Rightarrow> result\<lparr>power_fld := (power_fld desired \<noteq> power_fld p)\<rparr>
             | PANASONIC_AC32 \<Rightarrow> result\<lparr>power_fld := (power_fld desired \<noteq> power_fld p)\<rparr>
             | WHIRLPOOL_AC \<Rightarrow> result\<lparr>power_fld := (power_fld desired \<noteq> power_fld p)\<rparr>
             | MIRAGE \<Rightarrow>
                 (let result =
                        (if model desired = KKG29AC1 K
                         then result\<lparr>light := (light desired \<noteq> light p)\<rparr>
                         else result)
                  in result\<lparr>clean := (clean desired \<noteq> clean p)\<rparr>)
             | PANASONIC_AC \<Rightarrow>
                 (if model desired = kPanasonicCkp K
                  then result\<lparr>power_fld := (power_fld desired \<noteq> power_fld p)\<rparr>
                  else result)
             | SAMSUNG_AC \<Rightarrow>
                 result\<lparr>beep := (beep desired \<noteq> beep p),
                        clean := (clean desired \<noteq> clean p)\<rparr>
             | _ \<Rightarrow> result)
          else result)"

section \<open>The dispatcher: \<open>IRac::sendAc\<close>\<close>

text \<open>
  Modelled from the spec: \<open>fahrenheitToCelsius\<close> is defined outside \<open>IRac.cpp\<close>; it
  is the standard Fahrenheit to Celsius formula.
\<close>

fun fahrenheitToCelsius :: "cfloat \<Rightarrow> cfloat" where
  "fahrenheitToCelsius (Num f) = Num ((f - 32) / 1.8)"
| "fahrenheitToCelsius NaN = NaN"

text \<open>
  The vendor drivers are outside \<open>IRac.cpp\<close>. A call of the helper \<open>IRac::lg\<close> or
  \<open>IRac::rhoss\<close>, which programs a driver from its arguments and sends the frame,
  is recorded with the arguments that \<open>sendAc\<close> hands over, in the order of the
  helper's parameters after \<open>ac\<close>:
  \<open>lg model on mode degrees fan swingv swingv_prev swingh light\<close> and
  \<open>rhoss on mode degrees fan swing\<close>.
\<close>

datatype driver_call =
    lg int16_t bool opmode_t cfloat fanspeed_t swingv_t swingv_t swingh_t bool
  | rhoss bool opmode_t cfloat fanspeed_t swingv_t

text \<open>The locals \<open>degC\<close>, \<open>sensorTempC\<close> and \<open>send\<close> of the structured \<open>sendAc\<close>.\<close>

definition sendAc_degC :: "state_t \<Rightarrow> cfloat" where
  "sendAc_degC desired =
     (if celsius desired then degrees desired
      else fahrenheitToCelsius (degrees desired))"

definition sendAc_sensorTempC :: "state_t \<Rightarrow> cfloat" where
  "sendAc_sensorTempC desired =
     (if float_truthy (sensorTemperature desired) then sensorTemperature desired
      else fahrenheitToCelsius (sensorTemperature desired))"

definition sendAc_send :: "model_ids \<Rightarrow> state_t \<Rightarrow> state_t option \<Rightarrow> state_t" where
  "sendAc_send K desired prev = handleToggles K (cleanState desired) prev"

text \<open>
  The structured \<open>sendAc(desired, prev)\<close>: the boolean it returns and the driver
  calls it made. The arms \<open>LG\<close>, \<open>LG2\<close> and \<open>RHOSS\<close> are the only ones of the switch;
  each is compiled in when its macro is true.
\<close>

definition sendAc ::
  "build \<Rightarrow> model_ids \<Rightarrow> state_t \<Rightarrow> state_t option \<Rightarrow> bool \<times> driver_call list" where
  "sendAc B K desired prev =
     (let degC = sendAc_degC desired;
          sensorTempC = sendAc_sensorTempC desired;
          send = sendAc_send K desired prev;
          prev_swingv = (case prev of Some p \<Rightarrow> swingv p | None \<Rightarrow> swingv_t.kOff)
      in case protocol send of
           LG \<Rightarrow>
             if B SEND_LG
             then (True, [lg (model send) (power_fld send) (mode send) (degrees send)
                             (fanspeed send) (swingv send) prev_swingv (swingh send)
                             (light send)])
             else (False, [])
         | LG2 \<Rightarrow>
             if B SEND_LG
             then (True, [lg (model send) (power_fld send) (mode send) (degrees send)
                             (fanspeed send) (swingv send) prev_swingv (swingh send)
                             (light send)])
             else (False, [])
         | RHOSS \<Rightarrow>
             if B SEND_RHOSS
             then (True, [rhoss (power_fld send) (mode send) degC (fanspeed send)
                                (swingv send)])
             else (False, [])
         | _ \<Rightarrow> (False, []))"

text \<open>
  The flat-argument \<open>sendAc\<close>: \<open>to_send\<close> is a default-constructed state filled in
  by \<open>initState\<close>, passed both as the desired state and as the previous one.
\<close>

definition sendAc_flat_to_send ::
  "decode_type_t \<Rightarrow> int16_t \<Rightarrow> bool \<Rightarrow> opmode_t \<Rightarrow> cfloat \<Rightarrow> bool \<Rightarrow>
   fanspeed_t \<Rightarrow> swingv_t \<Rightarrow> swingh_t \<Rightarrow> bool \<Rightarrow> bool \<Rightarrow> bool \<Rightarrow> bool \<Rightarrow> bool \<Rightarrow>
   bool \<Rightarrow> bool \<Rightarrow> int16_t \<Rightarrow> int16_t \<Rightarrow> state_t" where
  "sendAc_flat_to_send vendor model' power' mode' degrees' celsius' fan swingv' swingh'
     quiet' turbo' econo' light' filter' clean' beep' sleep' clock' =
     initState default_state vendor model' power' mode' degrees' celsius' fan swingv'
       swingh' quiet' turbo' econo' light' filter' clean' beep' sleep' clock'"

definition sendAc_flat ::
  "build \<Rightarrow> model_ids \<Rightarrow> decode_type_t \<Rightarrow> int16_t \<Rightarrow> bool \<Rightarrow> opmode_t \<Rightarrow> cfloat \<Rightarrow>
   bool \<Rightarrow> fanspeed_t \<Rightarrow> swingv_t \<Rightarrow> swingh_t \<Rightarrow> bool \<Rightarrow> bool \<Rightarrow> bool \<Rightarrow> bool \<Rightarrow>
   bool \<Rightarrow> bool \<Rightarrow> bool \<Rightarrow> int16_t \<Rightarrow> int16_t \<Rightarrow> bool \<times> driver_call list" where
  "sendAc_flat B K vendor model' power' mode' degrees' celsius' fan swingv' swingh'
     quiet' turbo' econo' light' filter' clean' beep' sleep' clock' =
     (let to_send = sendAc_flat_to_send vendor model' power' mode' degrees' celsius'
                      fan swingv' swingh' quiet' turbo' econo' light' filter' clean'
                      beep' sleep' clock'
      in sendAc B K to_send (Some to_send))"

section \<open>The \<open>IRac\<close> object\<close>

text \<open>
  The members \<open>_pin\<close>, \<open>_inverted\<close>, \<open>_modulation\<close>, \<open>next\<close> and \<open>_prev\<close>; the last
  two are named \<open>nextState\<close> and \<open>prevState\<close> here.
\<close>

record IRac =
  pin :: "16 word"
  inverted :: bool
  modulation :: bool
  nextState :: state_t
  prevState :: state_t

definition getState :: "IRac \<Rightarrow> state_t" where
  "getState self = nextState self"

definition getStatePrev :: "IRac \<Rightarrow> state_t" where
  "getStatePrev self = prevState self"

definition markAsSent :: "IRac \<Rightarrow> IRac" where
  "markAsSent self = self\<lparr>prevState := nextState self\<rparr>"

text \<open>The no-argument \<open>sendAc\<close>: the boolean it returns and the object afterwards.\<close>

definition sendAc_void :: "build \<Rightarrow> model_ids \<Rightarrow> IRac \<Rightarrow> bool \<times> IRac" where
  "sendAc_void B K self =
     (let success = fst (sendAc B K (nextState self) (Some (prevState self)))
      in (success, if success then markAsSent self else self))"

definition cmpStates :: "state_t \<Rightarrow> state_t \<Rightarrow> bool" where
  "cmpStates a b =
     (protocol a \<noteq> protocol b \<or> model a \<noteq> model b \<or>
      power_fld a \<noteq> power_fld b \<or>
      mode a \<noteq> mode b \<or> float_ne (degrees a) (degrees b) \<or> celsius a \<noteq> celsius b \<or>
      fanspeed a \<noteq> fanspeed b \<or> swingv a \<noteq> swingv b \<or>
      swingh a \<noteq> swingh b \<or> quiet a \<noteq> quiet b \<or> turbo a \<noteq> turbo b \<or>
      econo a \<noteq> econo b \<or> light a \<noteq> light b \<or> filter_fld a \<noteq> filter_fld b \<or>
      clean a \<noteq> clean b \<or> beep a \<noteq> beep b \<or> sleep a \<noteq> sleep b \<or>
      command a \<noteq> command b \<or>
      float_ne (sensorTemperature a) (sensorTemperature b) \<or>
      iFeel a \<noteq> iFeel b)"

definition hasStateChanged :: "IRac \<Rightarrow> bool" where
  "hasStateChanged self = cmpStates (nextState self) (prevState self)"

section \<open>The string parsers and renderers\<close>

text \<open>
  The string constants \<open>kAutoStr\<close>, \<open>kOffStr\<close>, ... live in the locale text table,
  outside \<open>IRac.cpp\<close>. The names below are the constants that the parsers and
  renderers use; a text table gives each its string. (\<open>kUnknownStr\<close> is returned
  by the \<open>default:\<close> arm of each renderer only, for a value that is none of the
  enumerators; the datatypes have no such value.)
\<close>

datatype (plugins del: code "quickcheck" size lifting transfer) text_id =
    kControlCommandStr | kIFeelReportStr | kIFeelStr | kSetTimerCommandStr | kTimerStr
  | kConfigCommandStr | kAutoStr | kAutomaticStr | kOffStr | kStopStr | kCoolStr
  | kCoolingStr | kHeatStr | kHeatingStr | kDryStr | kDryingStr | kDehumidifyStr
  | kFanStr | kFanOnlyStr | kFan_OnlyStr | kFanOnlyWithSpaceStr | kFanOnlyNoSpaceStr
  | kMinStr | kMinimumStr | kLowestStr | kLowStr | kLoStr | kMedStr | kMediumStr
  | kMidStr | kHighStr | kHiStr | kMaxStr | kMaximumStr | kHighestStr | kMedHighStr
  | kOnStr | kSwingStr | kBottomStr | kDownStr | kMiddleStr | kCentreStr
  | kUpperMiddleStr | kTopStr | kUpStr | kLeftMaxNoSpaceStr | kLeftMaxStr
  | kMaxLeftNoSpaceStr | kMaxLeftStr | kLeftStr | kRightStr | kRightMaxNoSpaceStr
  | kRightMaxStr | kMaxRightNoSpaceStr | kMaxRightStr | kWideStr | k1Str | kYesStr
  | kTrueStr | k0Str | kNoStr | kFalseStr

type_synonym text_table = "text_id \<Rightarrow> string"

text \<open>
  \<open>STRCASECMP\<close> is the C library's \<open>strcasecmp\<close>: the strings are compared byte by
  byte after \<open>tolower\<close>, the end of a string counting as the byte 0, and the result
  is the difference at the first mismatch, 0 when there is none.
\<close>

definition tolower :: "char \<Rightarrow> char" where
  "tolower c =
     (case map_of (zip ''ABCDEFGHIJKLMNOPQRSTUVWXYZ'' ''abcdefghijklmnopqrstuvwxyz'') c of
        Some l \<Rightarrow> l
      | None \<Rightarrow> c)"

fun STRCASECMP :: "string \<Rightarrow> string \<Rightarrow> int" where
  "STRCASECMP [] [] = 0"
| "STRCASECMP [] (y # ys) = - int (of_char (tolower y))"
| "STRCASECMP (x # xs) [] = int (of_char (tolower x))"
| "STRCASECMP (x # xs) (y # ys) =
     (if tolower x = tolower y then STRCASECMP xs ys
      else int (of_char (tolower x)) - int (of_char (tolower y)))"

text \<open>The parsers: \<open>!STRCASECMP(str, k)\<close> is \<open>STRCASECMP str (T k) = 0\<close>.\<close>

definition strToCommandType :: "text_table \<Rightarrow> string \<Rightarrow> ac_command_t \<Rightarrow> ac_command_t" where
  "strToCommandType T str dflt =
     (if STRCASECMP str (T kControlCommandStr) = 0 then kControlCommand
      else if STRCASECMP str (T kIFeelReportStr) = 0 \<or>
              STRCASECMP str (T kIFeelStr) = 0 then kSensorTempReport
      else if STRCASECMP str (T kSetTimerCommandStr) = 0 \<or>
              STRCASECMP str (T kTimerStr) = 0 then kTimerCommand
      else if STRCASECMP str (T kConfigCommandStr) = 0 then kConfigCommand
      else dflt)"

definition strToOpmode :: "text_table \<Rightarrow> string \<Rightarrow> opmode_t \<Rightarrow> opmode_t" where
  "strToOpmode T str dflt =
     (if STRCASECMP str (T kAutoStr) = 0 \<or>
         STRCASECMP str (T kAutomaticStr) = 0 then opmode_t.kAuto
      else if STRCASECMP str (T kOffStr) = 0 \<or>
              STRCASECMP str (T kStopStr) = 0 then opmode_t.kOff
      else if STRCASECMP str (T kCoolStr) = 0 \<or>
              STRCASECMP str (T kCoolingStr) = 0 then opmode_t.kCool
      else if STRCASECMP str (T kHeatStr) = 0 \<or>
              STRCASECMP str (T kHeatingStr) = 0 then opmode_t.kHeat
      else if STRCASECMP str (T kDryStr) = 0 \<or>
              STRCASECMP str (T kDryingStr) = 0 \<or>
              STRCASECMP str (T kDehumidifyStr) = 0 then opmode_t.kDry
      else if STRCASECMP str (T kFanStr) = 0 \<or>
              STRCASECMP str (T kFanOnlyStr) = 0 \<or>
              STRCASECMP str (T kFan_OnlyStr) = 0 \<or>
              STRCASECMP str (T kFanOnlyWithSpaceStr) = 0 \<or>
              STRCASECMP str (T kFanOnlyNoSpaceStr) = 0 then opmode_t.kFan
      else dflt)"

definition strToFanspeed :: "text_table \<Rightarrow> string \<Rightarrow> fanspeed_t \<Rightarrow> fanspeed_t" where
  "strToFanspeed T str dflt =
     (if STRCASECMP str (T kAutoStr) = 0 \<or>
         STRCASECMP str (T kAutomaticStr) = 0 then fanspeed_t.kAuto
      else if STRCASECMP str (T kMinStr) = 0 \<or>
              STRCASECMP str (T kMinimumStr) = 0 \<or>
              STRCASECMP str (T kLowestStr) = 0 then fanspeed_t.kMin
      else if STRCASECMP str (T kLowStr) = 0 \<or>
              STRCASECMP str (T kLoStr) = 0 then fanspeed_t.kLow
      else if STRCASECMP str (T kMedStr) = 0 \<or>
              STRCASECMP str (T kMediumStr) = 0 \<or>
              STRCASECMP str (T kMidStr) = 0 then fanspeed_t.kMedium
      else if STRCASECMP str (T kHighStr) = 0 \<or>
              STRCASECMP str (T kHiStr) = 0 then fanspeed_t.kHigh
      else if STRCASECMP str (T kMaxStr) = 0 \<or>
              STRCASECMP str (T kMaximumStr) = 0 \<or>
              STRCASECMP str (T kHighestStr) = 0 then fanspeed_t.kMax
      else if STRCASECMP str (T kMedHighStr) = 0 then fanspeed_t.kMediumHigh
      else dflt)"

definition strToSwingV :: "text_table \<Rightarrow> string \<Rightarrow> swingv_t \<Rightarrow> swingv_t" where
  "strToSwingV T str dflt =
     (if STRCASECMP str (T kAutoStr) = 0 \<or>
         STRCASECMP str (T kAutomaticStr) = 0 \<or>
         STRCASECMP str (T kOnStr) = 0 \<or>
         STRCASECMP str (T kSwingStr) = 0 then swingv_t.kAuto
      else if STRCASECMP str (T kOffStr) = 0 \<or>
              STRCASECMP str (T kStopStr) = 0 then swingv_t.kOff
      else if STRCASECMP str (T kMinStr) = 0 \<or>
              STRCASECMP str (T kMinimumStr) = 0 \<or>
              STRCASECMP str (T kLowestStr) = 0 \<or>
              STRCASECMP str (T kBottomStr) = 0 \<or>
              STRCASECMP str (T kDownStr) = 0 then swingv_t.kLowest
      else if STRCASECMP str (T kLowStr) = 0 then swingv_t.kLow
      else if STRCASECMP str (T kMidStr) = 0 \<or>
              STRCASECMP str (T kMiddleStr) = 0 \<or>
              STRCASECMP str (T kMedStr) = 0 \<or>
              STRCASECMP str (T kMediumStr) = 0 \<or>
              STRCASECMP str (T kCentreStr) = 0 then swingv_t.kMiddle
      else if STRCASECMP str (T kUpperMiddleStr) = 0 then swingv_t.kUpperMiddle
      else if STRCASECMP str (T kHighStr) = 0 \<or>
              STRCASECMP str (T kHiStr) = 0 then swingv_t.kHigh
      else if STRCASECMP str (T kHighestStr) = 0 \<or>
              STRCASECMP str (T kMaxStr) = 0 \<or>
              STRCASECMP str (T kMaximumStr) = 0 \<or>
              STRCASECMP str (T kTopStr) = 0 \<or>
              STRCASECMP str (T kUpStr) = 0 then swingv_t.kHighest
      else dflt)"

definition strToSwingH :: "text_table \<Rightarrow> string \<Rightarrow> swingh_t \<Rightarrow> swingh_t" where
  "strToSwingH T str dflt =
     (if STRCASECMP str (T kAutoStr) = 0 \<or>
         STRCASECMP str (T kAutomaticStr) = 0 \<or>
         STRCASECMP str (T kOnStr) = 0 \<or>
         STRCASECMP str (T kSwingStr) = 0 then swingh_t.kAuto
      else if STRCASECMP str (T kOffStr) = 0 \<or>
              STRCASECMP str (T kStopStr) = 0 then swingh_t.kOff
      else if STRCASECMP str (T kLeftMaxNoSpaceStr) = 0 \<or>
              STRCASECMP str (T kLeftMaxStr) = 0 \<or>
              STRCASECMP str (T kMaxLeftNoSpaceStr) = 0 \<or>
              STRCASECMP str (T kMaxLeftStr) = 0 then swingh_t.kLeftMax
      else if STRCASECMP str (T kLeftStr) = 0 then swingh_t.kLeft
      else if STRCASECMP str (T kMidStr) = 0 \<or>
              STRCASECMP str (T kMiddleStr) = 0 \<or>
              STRCASECMP str (T kMedStr) = 0 \<or>
              STRCASECMP str (T kMediumStr) = 0 \<or>
              STRCASECMP str (T kCentreStr) = 0 then swingh_t.kMiddle
      else if STRCASECMP str (T kRightStr) = 0 then swingh_t.kRight
      else if STRCASECMP str (T kRightMaxNoSpaceStr) = 0 \<or>
              STRCASECMP str (T kRightMaxStr) = 0 \<or>
              STRCASECMP str (T kMaxRightNoSpaceStr) = 0 \<or>
              STRCASECMP str (T kMaxRightStr) = 0 then swingh_t.kRightMax
      else if STRCASECMP str (T kWideStr) = 0 then swingh_t.kWide
      else dflt)"

definition strToBool :: "text_table \<Rightarrow> string \<Rightarrow> bool \<Rightarrow> bool" where
  "strToBool T str dflt =
     (if STRCASECMP str (T kOnStr) = 0 \<or>
         STRCASECMP str (T k1Str) = 0 \<or>
         STRCASECMP str (T kYesStr) = 0 \<or>
         STRCASECMP str (T kTrueStr) = 0 then True
      else if STRCASECMP str (T kOffStr) = 0 \<or>
              STRCASECMP str (T k0Str) = 0 \<or>
              STRCASECMP str (T kNoStr) = 0 \<or>
              STRCASECMP str (T kFalseStr) = 0 then False
      else dflt)"

text \<open>The renderers.\<close>

definition boolToString :: "text_table \<Rightarrow> bool \<Rightarrow> string" where
  "boolToString T v = (if v then T kOnStr else T kOffStr)"

definition commandTypeToString :: "text_table \<Rightarrow> ac_command_t \<Rightarrow> string" where
  "commandTypeToString T cmdType =
     (case cmdType of
        kControlCommand \<Rightarrow> T kControlCommandStr
      | kSensorTempReport \<Rightarrow> T kIFeelReportStr
      | kTimerCommand \<Rightarrow> T kSetTimerCommandStr
      | kConfigCommand \<Rightarrow> T kConfigCommandStr)"

definition opmodeToString :: "text_table \<Rightarrow> opmode_t \<Rightarrow> bool \<Rightarrow> string" where
  "opmodeToString T mode' ha =
     (case mode' of
        opmode_t.kOff \<Rightarrow> T kOffStr
      | opmode_t.kAuto \<Rightarrow> T kAutoStr
      | opmode_t.kCool \<Rightarrow> T kCoolStr
      | opmode_t.kHeat \<Rightarrow> T kHeatStr
      | opmode_t.kDry \<Rightarrow> T kDryStr
      | opmode_t.kFan \<Rightarrow> (if ha then T kFan_OnlyStr else T kFanStr))"

definition fanspeedToString :: "text_table \<Rightarrow> fanspeed_t \<Rightarrow> string" where
  "fanspeedToString T speed =
     (case speed of
        fanspeed_t.kAuto \<Rightarrow> T kAutoStr
      | fanspeed_t.kMax \<Rightarrow> T kMaxStr
      | fanspeed_t.kHigh \<Rightarrow> T kHighStr
      | fanspeed_t.kMedium \<Rightarrow> T kMediumStr
      | fanspeed_t.kMediumHigh \<Rightarrow> T kMedHighStr
      | fanspeed_t.kLow \<Rightarrow> T kLowStr
      | fanspeed_t.kMin \<Rightarrow> T kMinStr)"

definition swingvToString :: "text_table \<Rightarrow> swingv_t \<Rightarrow> string" where
  "swingvToString T swingv' =
     (case swingv' of
        swingv_t.kOff \<Rightarrow> T kOffStr
      | swingv_t.kAuto \<Rightarrow> T kAutoStr
      | swingv_t.kHighest \<Rightarrow> T kHighestStr
      | swingv_t.kHigh \<Rightarrow> T kHighStr
      | swingv_t.kMiddle \<Rightarrow> T kMiddleStr
      | swingv_t.kUpperMiddle \<Rightarrow> T kUpperMiddleStr
      | swingv_t.kLow \<Rightarrow> T kLowStr
      | swingv_t.kLowest \<Rightarrow> T kLowestStr)"

definition swinghToString :: "text_table \<Rightarrow> swingh_t \<Rightarrow> string" where
  "swinghToString T swingh' =
     (case swingh' of
        swingh_t.kOff \<Rightarrow> T kOffStr
      | swingh_t.kAuto \<Rightarrow> T kAutoStr
      | swingh_t.kLeftMax \<Rightarrow> T kLeftMaxStr
      | swingh_t.kLeft \<Rightarrow> T kLeftStr
      | swingh_t.kMiddle \<Rightarrow> T kMiddleStr
      | swingh_t.kRight \<Rightarrow> T kRightStr
      | swingh_t.kRightMax \<Rightarrow> T kRightMaxStr
      | swingh_t.kWide \<Rightarrow> T kWideStr)"

section \<open>\<open>IRAcUtils::resultAcToString\<close>\<close>

text \<open>
  The fields of \<open>decode_results\<close> that the function reads: \<open>decode_type\<close>, \<open>value\<close>
  and \<open>state\<close> (named \<open>raw_value\<close> and \<open>raw_state\<close> here).
\<close>

record decode_results =
  decode_type :: decode_type_t
  raw_value :: "64 word"
  raw_state :: "8 word list"

text \<open>
  The vendor classes are outside \<open>IRac.cpp\<close>; what they compute is a parameter.
  \<open>IRLgAc_isValidLgAc v t\<close> and \<open>IRLgAc_toString v t\<close> are \<open>isValidLgAc()\<close> and
  \<open>toString()\<close> of an \<open>IRLgAc\<close> after \<open>setRaw(v, t)\<close>; \<open>IRRhossAc_toString st\<close> is
  \<open>toString()\<close> of an \<open>IRRhossAc\<close> after \<open>setRaw(st)\<close>.
  Modelled from the spec: \<open>IRRhossAc_isValid st\<close> is the validity check that the
  external-interfaces section gives every decoder; \<open>IRac.cpp\<close> never calls the Rhoss
  one.
\<close>

record drivers =
  IRLgAc_isValidLgAc :: "64 word \<Rightarrow> decode_type_t \<Rightarrow> bool"
  IRLgAc_toString :: "64 word \<Rightarrow> decode_type_t \<Rightarrow> string"
  IRRhossAc_toString :: "8 word list \<Rightarrow> string"
  IRRhossAc_isValid :: "8 word list \<Rightarrow> bool"

text \<open>The pointer \<open>result\<close> is dereferenced unchecked; it is a value here.\<close>

definition resultAcToString :: "drivers \<Rightarrow> build \<Rightarrow> decode_results \<Rightarrow> string" where
  "resultAcToString D B result =
     (case decode_type result of
        LG \<Rightarrow>
          if B DECODE_LG
          then (if IRLgAc_isValidLgAc D (raw_value result) (decode_type result)
                then IRLgAc_toString D (raw_value result) (decode_type result)
                else '''')
          else ''''
      | LG2 \<Rightarrow>
          if B DECODE_LG
          then (if IRLgAc_isValidLgAc D (raw_value result) (decode_type result)
                then IRLgAc_toString D (raw_value result) (decode_type result)
                else '''')
          else ''''
      | RHOSS \<Rightarrow>
          if B DECODE_RHOSS then IRRhossAc_toString D (raw_state result) else ''''
      | _ \<Rightarrow> '''')"

section \<open>The specification's tables\<close>

text \<open>
  These definitions follow the specification, not the code; the theorems below compare
  the code with them.

  The boolean toggle fields that the rewrite table of the toggle resolver lists for
  each protocol (for MIRAGE and PANASONIC_AC under the table's condition on the model).
\<close>

datatype bool_field = F_power | F_turbo | F_econo | F_light | F_clean | F_beep

fun field_of :: "bool_field \<Rightarrow> state_t \<Rightarrow> bool" where
  "field_of F_power s = power_fld s"
| "field_of F_turbo s = turbo s"
| "field_of F_econo s = econo s"
| "field_of F_light s = light s"
| "field_of F_clean s = clean s"
| "field_of F_beep s = beep s"

definition spec_toggle_table ::
  "model_ids \<Rightarrow> decode_type_t \<Rightarrow> int16_t \<Rightarrow> bool_field list" where
  "spec_toggle_table K p m =
     (case p of
        COOLIX \<Rightarrow> [F_turbo, F_light, F_clean]
      | TRANSCOLD \<Rightarrow> [F_turbo, F_light, F_clean]
      | DAIKIN128 \<Rightarrow> [F_power, F_light]
      | ELECTRA_AC \<Rightarrow> [F_light]
      | FUJITSU_AC \<Rightarrow> [F_turbo, F_econo]
      | MIDEA \<Rightarrow> [F_turbo, F_econo, F_light, F_clean]
      | SHARP_AC \<Rightarrow> [F_light]
      | KELON \<Rightarrow> [F_power]
      | AIRWELL \<Rightarrow> [F_power]
      | DAIKIN64 \<Rightarrow> [F_power]
      | PANASONIC_AC32 \<Rightarrow> [F_power]
      | WHIRLPOOL_AC \<Rightarrow> [F_power]
      | MIRAGE \<Rightarrow> (if m = KKG29AC1 K then [F_light] else []) @ [F_clean]
      | PANASONIC_AC \<Rightarrow> (if m = kPanasonicCkp K then [F_power] else [])
      | SAMSUNG_AC \<Rightarrow> [F_beep, F_clean]
      | _ \<Rightarrow> [])"

text \<open>The protocols with the vertical-swing rule.\<close>

definition spec_swingv_rule_protocols :: "decode_type_t list" where
  "spec_swingv_rule_protocols =
     [COOLIX, TRANSCOLD, MIDEA, CORONA_AC, HITACHI_AC344, HITACHI_AC424, SHARP_AC, KELON]"

text \<open>What the driver of the decoded protocol reports about the frame.\<close>

definition frame_valid :: "drivers \<Rightarrow> decode_results \<Rightarrow> bool" where
  "frame_valid D result =
     (case decode_type result of
        LG \<Rightarrow> IRLgAc_isValidLgAc D (raw_value result) (decode_type result)
      | LG2 \<Rightarrow> IRLgAc_isValidLgAc D (raw_value result) (decode_type result)
      | RHOSS \<Rightarrow> IRRhossAc_isValid D (raw_state result)
      | _ \<Rightarrow> False)"

text \<open>
  No two constants of a text table are the same string up to letter case.
\<close>

definition text_distinct :: "text_table \<Rightarrow> bool" where
  "text_distinct T = (\<forall>a b. a \<noteq> b \<longrightarrow> STRCASECMP (T a) (T b) \<noteq> 0)"

section \<open>Concrete inputs\<close>

text \<open>
  A sample assignment of the two model codes, the build switches being those of
  \<open>all_enabled\<close>; no general theorem depends on the values.
\<close>

definition example_ids :: model_ids where
  "example_ids = \<lparr>KKG29AC1 = 2, kPanasonicCkp = 5\<rparr>"

text \<open>
  An \<open>IRac\<close> object whose \<open>next\<close> asks an LG unit for power on in mode off.
\<close>

definition example_irac :: IRac where
  "example_irac =
     \<lparr>pin = 4, inverted = False, modulation = True,
      nextState =
        default_state\<lparr>protocol := LG, power_fld := True, mode := opmode_t.kOff\<rparr>,
      prevState = default_state\<lparr>protocol := LG\<rparr>\<rparr>"

text \<open>A state whose sensor temperature is NaN.\<close>

definition nan_state :: state_t where
  "nan_state = default_state\<lparr>sensorTemperature := NaN\<rparr>"

text \<open>The COOLIX scenario of the specification: turbo requested, previously off.\<close>

definition coolix_desired :: state_t where
  "coolix_desired =
     default_state\<lparr>protocol := COOLIX, power_fld := True, mode := opmode_t.kCool,
                   turbo := True\<rparr>"

definition coolix_prev :: state_t where
  "coolix_prev = coolix_desired\<lparr>turbo := False\<rparr>"


text \<open>A KELON state that turns the vertical swing on, and the state before it.\<close>

definition kelon_desired :: state_t where
  "kelon_desired = default_state\<lparr>protocol := KELON, swingv := swingv_t.kHigh\<rparr>"

definition kelon_prev :: state_t where
  "kelon_prev = default_state\<lparr>protocol := KELON\<rparr>"

text \<open>
  Drivers that reject every frame and still render it, and a decoded Rhoss frame.
\<close>

definition rejecting_drivers :: drivers where
  "rejecting_drivers =
     \<lparr>IRLgAc_isValidLgAc = (\<lambda>v t. False), IRLgAc_toString = (\<lambda>v t. ''Power: Off''),
      IRRhossAc_toString = (\<lambda>st. ''Power: Off''), IRRhossAc_isValid = (\<lambda>st. False)\<rparr>"

definition rhoss_frame :: decode_results where
  "rhoss_frame = \<lparr>decode_type = RHOSS, raw_value = 0, raw_state = [0, 0, 0]\<rparr>"

text \<open>
  Modelled from the spec: a text table. Each constant has a token that the parser
  section of the specification gives its enumerator; for the horizontal swing the
  strings are those of the comments in \<open>strToSwingH\<close>.
\<close>

primrec IRtext :: text_table where
  "IRtext kControlCommandStr = ''control''"
| "IRtext kIFeelReportStr = ''ifeelreport''"
| "IRtext kIFeelStr = ''ifeel''"
| "IRtext kSetTimerCommandStr = ''settimercommand''"
| "IRtext kTimerStr = ''timer''"
| "IRtext kConfigCommandStr = ''config''"
| "IRtext kAutoStr = ''auto''"
| "IRtext kAutomaticStr = ''automatic''"
| "IRtext kOffStr = ''off''"
| "IRtext kStopStr = ''stop''"
| "IRtext kCoolStr = ''cool''"
| "IRtext kCoolingStr = ''cooling''"
| "IRtext kHeatStr = ''heat''"
| "IRtext kHeatingStr = ''heating''"
| "IRtext kDryStr = ''dry''"
| "IRtext kDryingStr = ''drying''"
| "IRtext kDehumidifyStr = ''dehumidify''"
| "IRtext kFanStr = ''Fan''"
| "IRtext kFanOnlyStr = ''fan-only''"
| "IRtext kFan_OnlyStr = ''fan_only''"
| "IRtext kFanOnlyWithSpaceStr = ''fan only''"
| "IRtext kFanOnlyNoSpaceStr = ''fanonly''"
| "IRtext kMinStr = ''min''"
| "IRtext kMinimumStr = ''minimum''"
| "IRtext kLowestStr = ''lowest''"
| "IRtext kLowStr = ''low''"
| "IRtext kLoStr = ''lo''"
| "IRtext kMedStr = ''med''"
| "IRtext kMediumStr = ''medium''"
| "IRtext kMidStr = ''mid''"
| "IRtext kHighStr = ''high''"
| "IRtext kHiStr = ''hi''"
| "IRtext kMaxStr = ''max''"
| "IRtext kMaximumStr = ''maximum''"
| "IRtext kHighestStr = ''highest''"
| "IRtext kMedHighStr = ''medhigh''"
| "IRtext kOnStr = ''on''"
| "IRtext kSwingStr = ''swing''"
| "IRtext kBottomStr = ''bottom''"
| "IRtext kDownStr = ''down''"
| "IRtext kMiddleStr = ''middle''"
| "IRtext kCentreStr = ''centre''"
| "IRtext kUpperMiddleStr = ''uppermiddle''"
| "IRtext kTopStr = ''top''"
| "IRtext kUpStr = ''up''"
| "IRtext kLeftMaxNoSpaceStr = ''LeftMax''"
| "IRtext kLeftMaxStr = ''Left Max''"
| "IRtext kMaxLeftNoSpaceStr = ''MaxLeft''"
| "IRtext kMaxLeftStr = ''Max Left''"
| "IRtext kLeftStr = ''left''"
| "IRtext kRightStr = ''right''"
| "IRtext kRightMaxNoSpaceStr = ''RightMax''"
| "IRtext kRightMaxStr = ''Right Max''"
| "IRtext kMaxRightNoSpaceStr = ''MaxRight''"
| "IRtext kMaxRightStr = ''Max Right''"
| "IRtext kWideStr = ''wide''"
| "IRtext k1Str = ''1''"
| "IRtext kYesStr = ''yes''"
| "IRtext kTrueStr = ''true''"
| "IRtext k0Str = ''0''"
| "IRtext kNoStr = ''no''"
| "IRtext kFalseStr = ''false''"

definition text_ids :: "text_id list" where
  "text_ids =
     [kControlCommandStr, kIFeelReportStr, kIFeelStr, kSetTimerCommandStr, kTimerStr,
      kConfigCommandStr, kAutoStr, kAutomaticStr, kOffStr, kStopStr, kCoolStr,
      kCoolingStr, kHeatStr, kHeatingStr, kDryStr, kDryingStr, kDehumidifyStr,
      kFanStr, kFanOnlyStr, kFan_OnlyStr, kFanOnlyWithSpaceStr, kFanOnlyNoSpaceStr,
      kMinStr, kMinimumStr, kLowestStr, kLowStr, kLoStr, kMedStr, kMediumStr,
      kMidStr, kHighStr, kHiStr, kMaxStr, kMaximumStr, kHighestStr, kMedHighStr,
      kOnStr, kSwingStr, kBottomStr, kDownStr, kMiddleStr, kCentreStr,
      kUpperMiddleStr, kTopStr, kUpStr, kLeftMaxNoSpaceStr, kLeftMaxStr,
      kMaxLeftNoSpaceStr, kMaxLeftStr, kLeftStr, kRightStr, kRightMaxNoSpaceStr,
      kRightMaxStr, kMaxRightNoSpaceStr, kMaxRightStr, kWideStr, k1Str, kYesStr,
      kTrueStr, k0Str, kNoStr, kFalseStr]"

section \<open>Properties of the state normaliser and the toggle resolver\<close>

text \<open>
  C8. \<open>cleanState\<close> leaves every field but \<open>power\<close> as it is; \<open>power\<close> comes out
  false when the mode is off and is the given one otherwise.
\<close>

theorem cleanState_frame:
  "cleanState x =
     x\<lparr>power_fld := (if mode x = opmode_t.kOff then False else power_fld x)\<rparr>"
  by (simp add: cleanState_def)

text \<open>
  The swing rule, one protocol at a time: for each of the eight protocols the
  resolved vertical swing is \<open>swingv_toggle\<close> of the two states.
\<close>

lemma handleToggles_swingv_rule:
  assumes "protocol d = protocol p" and "model d = model p"
    and "protocol d \<in> set spec_swingv_rule_protocols"
  shows "swingv (handleToggles K d (Some p)) = swingv_toggle d p"
proof -
  from assms(3) consider "protocol d = COOLIX" | "protocol d = TRANSCOLD"
    | "protocol d = MIDEA" | "protocol d = CORONA_AC" | "protocol d = HITACHI_AC344"
    | "protocol d = HITACHI_AC424" | "protocol d = SHARP_AC" | "protocol d = KELON"
    unfolding spec_swingv_rule_protocols_def by fastforce
  then show ?thesis
    by cases (use assms(1,2) in \<open>simp_all add: handleToggles_def\<close>)
qed

text \<open>
  C4. For states of the same protocol and model, and each protocol with the swing
  rule, the resolved vertical swing is \<open>kAuto\<close> or \<open>kOff\<close>, and it is \<open>kAuto\<close>
  exactly when one of the desired and the previous swing is off and the other is not.
\<close>

theorem handleToggles_swingv:
  assumes "protocol d = protocol p" and "model d = model p"
    and "protocol d \<in> set spec_swingv_rule_protocols"
  shows "swingv (handleToggles K d (Some p)) \<in> {swingv_t.kAuto, swingv_t.kOff} \<and>
         (swingv (handleToggles K d (Some p)) = swingv_t.kAuto \<longleftrightarrow>
            (swingv d = swingv_t.kOff) \<noteq> (swingv p = swingv_t.kOff))"
  unfolding handleToggles_swingv_rule [OF assms]
  by (simp add: swingv_toggle_def)

theorem handleToggles_swingv_witness:
  "protocol kelon_desired = protocol kelon_prev \<and>
   model kelon_desired = model kelon_prev \<and>
   protocol kelon_desired \<in> set spec_swingv_rule_protocols \<and>
   swingv (handleToggles example_ids kelon_desired (Some kelon_prev)) = swingv_t.kAuto"
  using handleToggles_swingv [of kelon_desired kelon_prev example_ids]
  by (simp add: kelon_desired_def kelon_prev_def default_state_def
      spec_swingv_rule_protocols_def)

text \<open>The protocols that the toggle table has an entry for.\<close>

lemma spec_toggle_table_protocols:
  assumes "f \<in> set (spec_toggle_table K pr m)"
  shows "pr \<in> {COOLIX, TRANSCOLD, DAIKIN128, ELECTRA_AC, FUJITSU_AC, MIDEA, SHARP_AC,
               KELON, AIRWELL, DAIKIN64, PANASONIC_AC32, WHIRLPOOL_AC, MIRAGE,
               PANASONIC_AC, SAMSUNG_AC}"
  using assms by (cases pr) (simp_all add: spec_toggle_table_def)

text \<open>One field of the table at a time: the resolved field is the exclusive or.\<close>

lemma handleToggles_field_rule:
  assumes "protocol d = protocol p" and "model d = model p"
    and "f \<in> set (spec_toggle_table K (protocol d) (model d))"
  shows "field_of f (handleToggles K d (Some p)) = (field_of f d \<noteq> field_of f p)"
proof -
  from spec_toggle_table_protocols [OF assms(3)]
  consider "protocol d = COOLIX" | "protocol d = TRANSCOLD" | "protocol d = DAIKIN128"
    | "protocol d = ELECTRA_AC" | "protocol d = FUJITSU_AC" | "protocol d = MIDEA"
    | "protocol d = SHARP_AC" | "protocol d = KELON" | "protocol d = AIRWELL"
    | "protocol d = DAIKIN64" | "protocol d = PANASONIC_AC32"
    | "protocol d = WHIRLPOOL_AC" | "protocol d = MIRAGE" | "protocol d = PANASONIC_AC"
    | "protocol d = SAMSUNG_AC"
    by fastforce
  then show ?thesis
    by cases
      (use assms in \<open>(cases f;
          simp add: handleToggles_def spec_toggle_table_def Let_def split: if_splits)+\<close>)
qed

text \<open>
  C5. For states of the same protocol and model, every boolean field that the rewrite
  table marks as a toggle for the protocol (for MIRAGE \<open>light\<close> and PANASONIC_AC
  \<open>power\<close>, for the model the table names) resolves to the exclusive or of the
  desired and the previous value.
\<close>

theorem handleToggles_toggles:
  assumes "protocol d = protocol p" and "model d = model p"
  shows "\<forall>f \<in> set (spec_toggle_table K (protocol d) (model d)).
           field_of f (handleToggles K d (Some p)) = (field_of f d \<noteq> field_of f p)"
  using assms handleToggles_field_rule by blast

theorem handleToggles_toggles_witness:
  "protocol coolix_desired = protocol coolix_prev \<and>
   model coolix_desired = model coolix_prev \<and>
   turbo (handleToggles example_ids coolix_desired (Some coolix_prev)) = True \<and>
   light (handleToggles example_ids coolix_desired (Some coolix_prev)) = False \<and>
   clean (handleToggles example_ids coolix_desired (Some coolix_prev)) = False"
  using handleToggles_toggles [of coolix_desired coolix_prev example_ids]
  by (simp add: coolix_desired_def coolix_prev_def default_state_def
      spec_toggle_table_def)

text \<open>The sleep rule of COOLIX and TRANSCOLD.\<close>

lemma handleToggles_sleep_rule:
  assumes "protocol d = protocol p" and "model d = model p"
    and "protocol d = COOLIX \<or> protocol d = TRANSCOLD"
  shows "sleep (handleToggles K d (Some p)) =
         (if (0 \<le>s sleep d) \<noteq> (0 \<le>s sleep p) then 0 else - 1)"
  using assms(3)
proof
  assume "protocol d = COOLIX"
  with assms(1,2) show ?thesis by (simp add: handleToggles_def)
next
  assume "protocol d = TRANSCOLD"
  with assms(1,2) show ?thesis by (simp add: handleToggles_def)
qed

section \<open>Properties of the dispatcher\<close>

text \<open>Neither the normaliser nor the resolver changes the protocol tag.\<close>

lemma send_protocol: "protocol (sendAc_send K desired prev) = protocol desired"
  by (simp add: sendAc_send_def handleToggles_def cleanState_def Let_def
      split: option.split decode_type_t.split)

text \<open>What the structured \<open>sendAc\<close> returns: true exactly in a compiled-in arm.\<close>

lemma sendAc_fst:
  "fst (sendAc B K desired prev) =
     (case protocol desired of LG \<Rightarrow> B SEND_LG | LG2 \<Rightarrow> B SEND_LG
      | RHOSS \<Rightarrow> B SEND_RHOSS | _ \<Rightarrow> False)"
  by (simp add: sendAc_def Let_def send_protocol split: decode_type_t.split)

text \<open>
  In a build that enables no switch but those of LG and Rhoss, \<open>sendAc\<close> returns
  false exactly for the protocols that \<open>isProtocolSupported\<close> rejects.
\<close>

lemma sendAc_false_iff_unsupported:
  assumes "\<forall>m. B m \<longrightarrow> m = SEND_LG \<or> m = SEND_RHOSS \<or> m = DECODE_LG \<or> m = DECODE_RHOSS"
  shows "fst (sendAc B K desired prev) = False \<longleftrightarrow>
         \<not> isProtocolSupported B (protocol desired)"
  using assms
  by (cases "protocol desired") (auto simp add: sendAc_fst isProtocolSupported_def)

lemma sendAc_false_iff_unsupported_lg_rhoss_only:
  "fst (sendAc lg_rhoss_only K desired prev) = False \<longleftrightarrow>
   \<not> isProtocolSupported lg_rhoss_only (protocol desired)"
  by (rule sendAc_false_iff_unsupported) (simp add: lg_rhoss_only_def)

text \<open>
  C1. In the build that enables every switch, COOLIX is a protocol that
  \<open>isProtocolSupported\<close> accepts, and the structured \<open>sendAc\<close> returns false for a
  COOLIX state: the switch of \<open>sendAc\<close> has the arms LG, LG2 and RHOSS only.
\<close>

theorem sendAc_false_on_supported_protocol:
  "isProtocolSupported all_enabled COOLIX \<and>
   sendAc all_enabled example_ids (default_state\<lparr>protocol := COOLIX\<rparr>) None
     = (False, [])"
  by (simp add: isProtocolSupported_def all_enabled_def sendAc_def sendAc_send_def
      handleToggles_def cleanState_def default_state_def)

text \<open>
  C2, as amended. When the no-argument \<open>sendAc\<close> returns true, the previous state
  afterwards is \<open>next\<close> itself, as the caller left it; when it returns false, the
  previous state is unchanged.
\<close>

theorem sendAc_void_prev:
  assumes "sendAc_void B K self = (ok, self')"
  shows "if ok then getStatePrev self' = getState self
         else getStatePrev self' = getStatePrev self"
  using assms
  by (auto simp add: sendAc_void_def Let_def markAsSent_def getStatePrev_def getState_def)

theorem sendAc_void_prev_witness:
  "sendAc_void all_enabled example_ids example_irac =
     (True, example_irac\<lparr>prevState := nextState example_irac\<rparr>) \<and>
   getStatePrev (example_irac\<lparr>prevState := nextState example_irac\<rparr>) =
     getState example_irac"
  using sendAc_void_prev [of all_enabled example_ids example_irac True
      "example_irac\<lparr>prevState := nextState example_irac\<rparr>"]
  by (simp add: sendAc_void_def sendAc_fst Let_def markAsSent_def
      example_irac_def all_enabled_def)

text \<open>
  The claim as stated fails: for \<open>example_irac\<close> the call succeeds, and the previous
  state afterwards has the power on, while the normalised, toggle-resolved state has
  it off.
\<close>

theorem sendAc_void_prev_counterexample:
  "fst (sendAc_void all_enabled example_ids example_irac) \<and>
   getStatePrev (snd (sendAc_void all_enabled example_ids example_irac)) \<noteq>
     handleToggles example_ids (cleanState (nextState example_irac))
       (Some (prevState example_irac))"
  by (simp add: sendAc_void_def sendAc_fst Let_def markAsSent_def getStatePrev_def
      example_irac_def all_enabled_def handleToggles_def cleanState_def default_state_def)

text \<open>The Rhoss arm hands the converted temperature over.\<close>

lemma rhoss_receives_degC:
  "sendAc all_enabled K
     (default_state\<lparr>protocol := RHOSS, degrees := Num 72, celsius := False\<rparr>) None =
     (True, [rhoss False opmode_t.kAuto (Num (200 / 9)) fanspeed_t.kAuto swingv_t.kOff])"
  by (simp add: sendAc_def sendAc_send_def handleToggles_def
      cleanState_def sendAc_degC_def Let_def all_enabled_def default_state_def)

text \<open>
  C3. For a Fahrenheit state with both temperatures at 72, whose Celsius value is
  200/9 = 22.22..., \<open>sensorTempC\<close> is 72: the conversion of the sensor temperature is
  chosen by the sensor temperature being zero, not by \<open>celsius\<close>; so a Celsius
  state with the sensor temperature 0 gets -160/9 = -17.77... . And the LG arm hands
  \<open>send.degrees\<close>, 72, to its driver, not \<open>degC\<close>.
\<close>

theorem sendAc_temperature_not_converted:
  "fahrenheitToCelsius (Num 72) = Num (200 / 9) \<and>
   sendAc_sensorTempC
     (default_state\<lparr>protocol := RHOSS, degrees := Num 72, celsius := False,
                    sensorTemperature := Num 72\<rparr>) = Num 72 \<and>
   sendAc_sensorTempC (default_state\<lparr>celsius := True, sensorTemperature := Num 0\<rparr>)
     = Num (- 160 / 9) \<and>
   sendAc all_enabled example_ids
     (default_state\<lparr>protocol := LG, degrees := Num 72, celsius := False,
                    sensorTemperature := Num 72\<rparr>) None =
     (True, [lg 1 False opmode_t.kAuto (Num 72) fanspeed_t.kAuto swingv_t.kOff
               swingv_t.kOff swingh_t.kOff False])"
  by (simp add: sendAc_sensorTempC_def sendAc_def sendAc_send_def handleToggles_def
      cleanState_def sendAc_degC_def Let_def all_enabled_def default_state_def)

text \<open>
  The flat-argument \<open>sendAc\<close> is the structured one on the packaged state, passed
  both as the desired and as the previous state.
\<close>

lemma sendAc_flat_eq:
  "sendAc_flat B K vendor model' power' mode' degrees' celsius' fan swingv' swingh'
     quiet' turbo' econo' light' filter' clean' beep' sleep' clock' =
   sendAc B K
     (sendAc_flat_to_send vendor model' power' mode' degrees' celsius' fan swingv'
        swingh' quiet' turbo' econo' light' filter' clean' beep' sleep' clock')
     (Some (sendAc_flat_to_send vendor model' power' mode' degrees' celsius' fan
        swingv' swingh' quiet' turbo' econo' light' filter' clean' beep' sleep'
        clock'))"
  by (simp add: sendAc_flat_def Let_def)

text \<open>
  With a mode other than off, the state \<open>send\<close> that the structured \<open>sendAc\<close>
  computes from the packaged state has every boolean toggle field of the protocol's
  rewrite list false, \<open>sleep\<close> -1 for COOLIX and TRANSCOLD, and \<open>swingv\<close> off for the
  protocols with the swing rule, whatever the arguments.
\<close>

lemma sendAc_flat_send_no_change:
  assumes "mode' \<noteq> opmode_t.kOff"
  shows
    "let to_send = sendAc_flat_to_send vendor model' power' mode' degrees' celsius' fan
                     swingv' swingh' quiet' turbo' econo' light' filter' clean' beep'
                     sleep' clock';
         send = sendAc_send K to_send (Some to_send)
     in (\<forall>f \<in> set (spec_toggle_table K vendor model'). field_of f send = False) \<and>
        (vendor = COOLIX \<or> vendor = TRANSCOLD \<longrightarrow> sleep send = - 1) \<and>
        (vendor \<in> set spec_swingv_rule_protocols \<longrightarrow> swingv send = swingv_t.kOff)"
proof -
  define s where "s = sendAc_flat_to_send vendor model' power' mode' degrees' celsius' fan
                     swingv' swingh' quiet' turbo' econo' light' filter' clean' beep'
                     sleep' clock'"
  have p: "protocol s = vendor" "model s = model'" "mode s = mode'"
    by (simp_all add: s_def sendAc_flat_to_send_def initState_def)
  have send: "sendAc_send K s (Some s) = handleToggles K s (Some s)"
    using assms p by (simp add: sendAc_send_def cleanState_def)
  have 1: "field_of f (handleToggles K s (Some s)) = False"
    if "f \<in> set (spec_toggle_table K vendor model')" for f
    using handleToggles_field_rule [of s s f K] that p by simp
  have 2: "sleep (handleToggles K s (Some s)) = - 1"
    if "vendor = COOLIX \<or> vendor = TRANSCOLD"
    using handleToggles_sleep_rule [of s s K] that p by simp
  have 3: "swingv (handleToggles K s (Some s)) = swingv_t.kOff"
    if "vendor \<in> set spec_swingv_rule_protocols"
    using handleToggles_swingv_rule [of s s K] that p by (simp add: swingv_toggle_def)
  show ?thesis
    unfolding Let_def s_def [symmetric] send using 1 2 3 by blast
qed

text \<open>
  What the flat-argument \<open>sendAc\<close> returns and which driver calls it makes, with a
  mode other than off. A driver is reached for LG, LG2 and RHOSS only; it receives
  the caller's arguments as they are (Rhoss the temperature in Celsius), and the LG
  helper receives the vertical swing also as the previous one. For every other
  protocol the call returns false and no driver is called.
\<close>

lemma sendAc_flat_calls:
  assumes "mode' \<noteq> opmode_t.kOff"
  shows
    "sendAc_flat B K vendor model' power' mode' degrees' celsius' fan swingv' swingh'
       quiet' turbo' econo' light' filter' clean' beep' sleep' clock' =
     (case vendor of
        LG \<Rightarrow>
          if B SEND_LG
          then (True, [lg model' power' mode' degrees' fan swingv' swingv' swingh' light'])
          else (False, [])
      | LG2 \<Rightarrow>
          if B SEND_LG
          then (True, [lg model' power' mode' degrees' fan swingv' swingv' swingh' light'])
          else (False, [])
      | RHOSS \<Rightarrow>
          if B SEND_RHOSS
          then (True, [rhoss power' mode'
                         (if celsius' then degrees' else fahrenheitToCelsius degrees')
                         fan swingv'])
          else (False, [])
      | _ \<Rightarrow> (False, []))"
proof -
  define s where "s = sendAc_flat_to_send vendor model' power' mode' degrees' celsius' fan
                     swingv' swingh' quiet' turbo' econo' light' filter' clean' beep'
                     sleep' clock'"
  have flat: "sendAc_flat B K vendor model' power' mode' degrees' celsius' fan swingv'
       swingh' quiet' turbo' econo' light' filter' clean' beep' sleep' clock' =
     sendAc B K s (Some s)"
    by (simp add: sendAc_flat_eq s_def)
  have p: "protocol s = vendor" "mode s = mode'"
    by (simp_all add: s_def sendAc_flat_to_send_def initState_def)
  have clean: "cleanState s = s"
    using assms p by (simp add: cleanState_def)
  show ?thesis
  proof (cases "vendor = LG \<or> vendor = LG2 \<or> vendor = RHOSS")
    case True
    then have send: "sendAc_send K s (Some s) = s"
      using p by (auto simp add: sendAc_send_def clean handleToggles_def)
    have f: "model s = model'" "power_fld s = power'" "degrees s = degrees'"
      "celsius s = celsius'" "fanspeed s = fan" "swingv s = swingv'"
      "swingh s = swingh'" "light s = light'"
      by (simp_all add: s_def sendAc_flat_to_send_def initState_def)
    from True show ?thesis
      unfolding flat
      by (auto simp add: sendAc_def Let_def send p f sendAc_degC_def)
  next
    case False
    have "fst (sendAc B K s (Some s)) = False"
      using False p by (cases vendor) (simp_all add: sendAc_fst)
    moreover have "snd (sendAc B K s (Some s)) = []"
      using False p
      by (cases vendor) (simp_all add: sendAc_def Let_def send_protocol)
    ultimately have "sendAc B K s (Some s) = (False, [])"
      by (simp add: prod_eq_iff)
    with False show ?thesis
      unfolding flat by (cases vendor) simp_all
  qed
qed


text \<open>
  The same call for LG reaches the driver, which receives the arguments as they are.
\<close>

lemma sendAc_flat_lg_handed:
  "sendAc_flat all_enabled example_ids LG 1 True opmode_t.kCool (Num 22) True
     fanspeed_t.kHigh swingv_t.kAuto swingh_t.kOff False True False True False True
     False 60 (- 1) =
   (True, [lg 1 True opmode_t.kCool (Num 22) fanspeed_t.kHigh swingv_t.kAuto
             swingv_t.kAuto swingh_t.kOff True])"
  by (simp add: sendAc_flat_calls all_enabled_def)

section \<open>Properties of the state comparison\<close>

lemma float_ne_iff: "a \<noteq> NaN \<Longrightarrow> b \<noteq> NaN \<Longrightarrow> float_ne a b \<longleftrightarrow> a \<noteq> b"
  by (cases a; cases b) simp_all

text \<open>
  C7, as amended. For two states whose \<open>degrees\<close> and \<open>sensorTemperature\<close> are not
  NaN, \<open>cmpStates\<close> is true exactly when the states differ in a field other than
  \<open>clock\<close>; in particular it is false for a state and the same state with another
  clock.
\<close>

theorem cmpStates_ignores_clock:
  assumes "degrees a \<noteq> NaN" "degrees b \<noteq> NaN"
    and "sensorTemperature a \<noteq> NaN" "sensorTemperature b \<noteq> NaN"
  shows "(cmpStates a b \<longleftrightarrow> a\<lparr>clock := clock b\<rparr> \<noteq> b) \<and>
         \<not> cmpStates a (a\<lparr>clock := k\<rparr>)"
proof -
  have "a\<lparr>clock := clock b\<rparr> = b \<longleftrightarrow> \<not> cmpStates a b"
    using assms
    by (cases a; cases b) (auto simp add: cmpStates_def float_ne_iff)
  moreover have "\<not> cmpStates a (a\<lparr>clock := k\<rparr>)"
    using assms by (simp add: cmpStates_def float_ne_iff)
  ultimately show ?thesis by blast
qed

theorem cmpStates_ignores_clock_witness:
  "degrees default_state \<noteq> NaN \<and> sensorTemperature default_state \<noteq> NaN \<and>
   cmpStates default_state (default_state\<lparr>turbo := True\<rparr>) \<and>
   \<not> cmpStates default_state (default_state\<lparr>clock := 720\<rparr>)"
  using cmpStates_ignores_clock
      [of default_state "default_state\<lparr>turbo := True\<rparr>" 720]
  by (simp add: default_state_def)

text \<open>
  The claim as stated fails: a state whose sensor temperature is NaN differs from
  itself with another clock, since NaN compares unequal to itself.
\<close>

theorem cmpStates_nan_counterexample:
  "cmpStates nan_state (nan_state\<lparr>clock := 0\<rparr>)"
  by (simp add: cmpStates_def nan_state_def)

section \<open>Properties of the parsers and renderers\<close>

lemma STRCASECMP_refl: "STRCASECMP s s = 0"
  by (induction s) simp_all

lemma text_distinctD:
  "text_distinct T \<Longrightarrow> a \<noteq> b \<Longrightarrow> (STRCASECMP (T a) (T b) = 0) = False"
  by (simp add: text_distinct_def)

lemma roundtrip_command:
  "text_distinct T \<Longrightarrow> strToCommandType T (commandTypeToString T v) d = v"
  by (cases v) (simp_all add: strToCommandType_def commandTypeToString_def
      STRCASECMP_refl text_distinctD)

lemma roundtrip_opmode:
  "text_distinct T \<Longrightarrow> strToOpmode T (opmodeToString T v ha) d = v"
  by (cases v) (simp_all add: strToOpmode_def opmodeToString_def
      STRCASECMP_refl text_distinctD)

lemma roundtrip_fanspeed:
  "text_distinct T \<Longrightarrow> strToFanspeed T (fanspeedToString T v) d = v"
  by (cases v) (simp_all add: strToFanspeed_def fanspeedToString_def
      STRCASECMP_refl text_distinctD)

lemma roundtrip_swingv:
  "text_distinct T \<Longrightarrow> strToSwingV T (swingvToString T v) d = v"
  by (cases v) (simp_all add: strToSwingV_def swingvToString_def
      STRCASECMP_refl text_distinctD)

lemma roundtrip_swingh:
  "text_distinct T \<Longrightarrow> strToSwingH T (swinghToString T v) d = v"
  by (cases v) (simp_all add: strToSwingH_def swinghToString_def
      STRCASECMP_refl text_distinctD)

lemma roundtrip_bool:
  "text_distinct T \<Longrightarrow> strToBool T (boolToString T v) d = v"
  by (cases v) (simp_all add: strToBool_def boolToString_def
      STRCASECMP_refl text_distinctD)

text \<open>
  C9. With a text table whose constants are distinct up to letter case, parsing the
  rendering of a value of \<open>opmode_t\<close> (in either rendering of \<open>kFan\<close>),
  \<open>fanspeed_t\<close>, \<open>swingv_t\<close>, \<open>swingh_t\<close>, \<open>ac_command_t\<close> or \<open>bool\<close>, with a
  default other than the value, gives the value back.
\<close>

theorem parse_render_roundtrip:
  assumes "text_distinct T"
  shows "(dm \<noteq> m \<longrightarrow> strToOpmode T (opmodeToString T m ha) dm = m) \<and>
         (df \<noteq> f \<longrightarrow> strToFanspeed T (fanspeedToString T f) df = f) \<and>
         (dv \<noteq> v \<longrightarrow> strToSwingV T (swingvToString T v) dv = v) \<and>
         (dh \<noteq> h \<longrightarrow> strToSwingH T (swinghToString T h) dh = h) \<and>
         (dc \<noteq> c \<longrightarrow> strToCommandType T (commandTypeToString T c) dc = c) \<and>
         (db \<noteq> b \<longrightarrow> strToBool T (boolToString T b) db = b)"
  using assms
  by (simp add: roundtrip_opmode roundtrip_fanspeed roundtrip_swingv roundtrip_swingh
      roundtrip_command roundtrip_bool)

text \<open>The concrete table \<open>IRtext\<close> has distinct constants.\<close>

lemma text_ids_all: "k \<in> set text_ids"
  by (cases k) (simp_all add: text_ids_def)

lemma tolower_cases:
  "tolower c = c \<or> tolower c \<in> set ''abcdefghijklmnopqrstuvwxyz''"
proof (cases "map_of (zip ''ABCDEFGHIJKLMNOPQRSTUVWXYZ'' ''abcdefghijklmnopqrstuvwxyz'') c")
  case None
  then show ?thesis by (simp add: tolower_def)
next
  case (Some l)
  then have "(c, l) \<in> set (zip ''ABCDEFGHIJKLMNOPQRSTUVWXYZ'' ''abcdefghijklmnopqrstuvwxyz'')"
    by (rule map_of_SomeD)
  then have "l \<in> set ''abcdefghijklmnopqrstuvwxyz''"
    by (rule set_zip_rightD)
  with Some show ?thesis by (simp add: tolower_def)
qed

lemma of_char_zero_iff: "(of_char c :: nat) = 0 \<longleftrightarrow> c = CHR 0x00"
proof -
  have "(of_char c :: nat) = of_char (CHR 0x00) \<longleftrightarrow> c = CHR 0x00"
    by (rule of_char_eq_iff)
  then show ?thesis by simp
qed

lemma tolower_nonzero: "CHR 0x00 \<noteq> c \<Longrightarrow> (0::nat) < of_char (tolower c)"
  using tolower_cases [of c] of_char_zero_iff [of c] by auto

text \<open>
  On C strings, which hold no byte 0, \<open>STRCASECMP\<close> is 0 exactly on equality up to
  letter case.
\<close>

lemma STRCASECMP_zero_iff:
  "CHR 0x00 \<notin> set a \<Longrightarrow> CHR 0x00 \<notin> set b \<Longrightarrow>
   STRCASECMP a b = 0 \<longleftrightarrow> map tolower a = map tolower b"
proof (induction a arbitrary: b)
  case Nil
  then show ?case by (cases b) (simp_all add: tolower_nonzero)
next
  case (Cons x xs)
  show ?case
  proof (cases b)
    case Nil
    with Cons.prems show ?thesis by (simp add: tolower_nonzero)
  next
    case (Cons y ys)
    with Cons.prems Cons.IH [of ys] show ?thesis by auto
  qed
qed

lemma IRtext_no_nul: "CHR 0x00 \<notin> set (IRtext k)"
  by (cases k) simp_all

lemma IRtext_lower_distinct: "distinct (map (\<lambda>k. map tolower (IRtext k)) text_ids)"
  by (simp add: text_ids_def tolower_def)

lemma IRtext_distinct: "text_distinct IRtext"
proof -
  have "inj_on (\<lambda>k. map tolower (IRtext k)) (set text_ids)"
    using IRtext_lower_distinct by (simp add: distinct_map)
  then have "a \<noteq> b \<Longrightarrow> map tolower (IRtext a) \<noteq> map tolower (IRtext b)" for a b
    by (auto simp add: inj_on_def text_ids_all)
  then show ?thesis
    by (simp add: text_distinct_def STRCASECMP_zero_iff IRtext_no_nul)
qed

theorem parse_render_roundtrip_witness:
  "text_distinct IRtext \<and>
   strToOpmode IRtext (opmodeToString IRtext opmode_t.kFan True) opmode_t.kAuto
     = opmode_t.kFan \<and>
   strToFanspeed IRtext (fanspeedToString IRtext fanspeed_t.kMediumHigh) fanspeed_t.kAuto
     = fanspeed_t.kMediumHigh \<and>
   strToSwingV IRtext (swingvToString IRtext swingv_t.kHighest) swingv_t.kOff
     = swingv_t.kHighest \<and>
   strToSwingH IRtext (swinghToString IRtext swingh_t.kRightMax) swingh_t.kOff
     = swingh_t.kRightMax \<and>
   strToCommandType IRtext (commandTypeToString IRtext kTimerCommand) kControlCommand
     = kTimerCommand \<and>
   strToBool IRtext (boolToString IRtext False) True = False"
  using IRtext_distinct
    parse_render_roundtrip [OF IRtext_distinct, of opmode_t.kAuto opmode_t.kFan True
      fanspeed_t.kAuto fanspeed_t.kMediumHigh swingv_t.kOff swingv_t.kHighest
      swingh_t.kOff swingh_t.kRightMax kControlCommand kTimerCommand True False]
  by simp

section \<open>Properties of the decoded-frame renderer\<close>

text \<open>
  C6, as amended. \<open>resultAcToString\<close> dispatches on the decoded protocol. For LG and
  LG2, when compiled in, it returns the driver's rendering when the driver reports
  the frame valid and the empty string when not. For RHOSS, when compiled in, it
  returns the driver's rendering without asking for validity. For every other
  protocol it returns the empty string.
\<close>

theorem resultAcToString_dispatch:
  "resultAcToString D B r =
     (if (decode_type r = LG \<or> decode_type r = LG2) \<and> B DECODE_LG
      then (if frame_valid D r then IRLgAc_toString D (raw_value r) (decode_type r)
            else '''')
      else if decode_type r = RHOSS \<and> B DECODE_RHOSS
      then IRRhossAc_toString D (raw_state r)
      else '''')"
  by (cases "decode_type r") (simp_all add: resultAcToString_def frame_valid_def)

text \<open>
  The claim as stated fails: for a Rhoss frame that the driver reports invalid, the
  result is the driver's rendering, not the empty string.
\<close>

theorem resultAcToString_rhoss_counterexample:
  "\<not> frame_valid rejecting_drivers rhoss_frame \<and>
   resultAcToString rejecting_drivers all_enabled rhoss_frame = ''Power: Off''"
  by (simp add: frame_valid_def resultAcToString_def rejecting_drivers_def
      rhoss_frame_def all_enabled_def)

end
